theory Spec2Isabelle
  imports Complex_Main
begin

section \<open>JavaScript values as the request client sees them\<close>

text \<open>
  The backend answers with JSON; \<^verbatim>\<open>axios\<close> hands the parsed body to the client as
  \<^verbatim>\<open>response.data\<close>. The client only ever reads a field with optional chaining
  (\<^verbatim>\<open>data?.caption\<close>), tests it for truthiness, returns it, or calls
  \<^verbatim>\<open>join\<close> on it. A number is a double, of which the client can only observe
  whether it is zero and how it prints: \<open>JNum zero printed\<close> holds just that. An object
  is the list of its key/value pairs.
\<close>

datatype js =
    JUndefined
  | JNull
  | JBool bool
  | JNum bool string
  | JStr string
  | JArr "js list"
  | JObj "(string \<times> js) list"

text \<open>JavaScript truthiness: every array and every object is truthy, the empty array included.\<close>

fun truthy :: "js \<Rightarrow> bool" where
  "truthy JUndefined = False"
| "truthy JNull = False"
| "truthy (JBool b) = b"
| "truthy (JNum zero printed) = (\<not> zero)"
| "truthy (JStr s) = (s \<noteq> [])"
| "truthy (JArr xs) = True"
| "truthy (JObj kvs) = True"

text \<open>\<^verbatim>\<open>data?.key\<close>: \<^verbatim>\<open>undefined\<close> unless \<^verbatim>\<open>data\<close> is an object that has the key.\<close>

fun opt_get :: "js \<Rightarrow> string \<Rightarrow> js" where
  "opt_get (JObj kvs) k = (case map_of kvs k of Some v \<Rightarrow> v | None \<Rightarrow> JUndefined)"
| "opt_get JUndefined k = JUndefined"
| "opt_get JNull k = JUndefined"
| "opt_get (JBool b) k = JUndefined"
| "opt_get (JNum zero printed) k = JUndefined"
| "opt_get (JStr s) k = JUndefined"
| "opt_get (JArr xs) k = JUndefined"

text \<open>A natural number in decimal, as an HTTP status prints in an error message.\<close>

definition digit_char :: "nat \<Rightarrow> char" where
  "digit_char d = char_of (48 + d)"

fun show_nat :: "nat \<Rightarrow> string" where
  "show_nat n = (if n < 10 then [digit_char n] else show_nat (n div 10) @ [digit_char (n mod 10)])"

declare show_nat.simps [simp del]

fun joinWith :: "string \<Rightarrow> string list \<Rightarrow> string" where
  "joinWith sep [] = []"
| "joinWith sep [x] = x"
| "joinWith sep (x # y # ys) = x @ sep @ joinWith sep (y # ys)"

text \<open>
  \<^verbatim>\<open>ToString\<close> on the values above, and \<^verbatim>\<open>Array.prototype.join\<close>, which
  renders \<^verbatim>\<open>null\<close> and \<^verbatim>\<open>undefined\<close> elements as the empty string.
\<close>

fun toString :: "js \<Rightarrow> string" where
  "toString JUndefined = ''undefined''"
| "toString JNull = ''null''"
| "toString (JBool b) = (if b then ''true'' else ''false'')"
| "toString (JNum zero printed) = printed"
| "toString (JStr s) = s"
| "toString (JArr xs) =
     joinWith '','' (map (\<lambda>x. if x = JUndefined \<or> x = JNull then [] else toString x) xs)"
| "toString (JObj kvs) = ''[object Object]''"

definition array_join :: "js list \<Rightarrow> string \<Rightarrow> string" where
  "array_join xs sep =
     joinWith sep (map (\<lambda>x. if x = JUndefined \<or> x = JNull then [] else toString x) xs)"

text \<open>A thrown value: an error object with its \<^verbatim>\<open>name\<close> and \<^verbatim>\<open>message\<close>.\<close>

datatype js_error = JsError (err_name: string) (err_message: string)

definition Error :: "string \<Rightarrow> js_error" where
  "Error msg = JsError ''Error'' msg"

definition TypeError :: "string \<Rightarrow> js_error" where
  "TypeError msg = JsError ''TypeError'' msg"


section \<open>The retrying request client (services/huggingfaceApi)\<close>

definition BACKEND_URL :: string where
  "BACKEND_URL = ''http://192.168.1.20:8000''"

definition BLIP_API_URL :: string where
  "BLIP_API_URL = BACKEND_URL @ ''/caption''"

definition DETR_API_URL :: string where
  "DETR_API_URL = BACKEND_URL @ ''/detect''"

definition BLIP_VQA_API_URL :: string where
  "BLIP_VQA_API_URL = BACKEND_URL @ ''/vqa''"

definition WHISPER_API_URL :: string where
  "WHISPER_API_URL = BACKEND_URL @ ''/transcribe''"

definition MAX_RETRIES :: nat where
  "MAX_RETRIES = 6"

definition RETRY_DELAY :: nat where
  "RETRY_DELAY = 3000"

definition FALLBACK_MESSAGE :: string where
  "FALLBACK_MESSAGE = ''Error processing your request. Please try again.''"

text \<open>
  The places where the client reads \<^verbatim>\<open>signal?.aborted\<close>: on entry, at the top of
  the loop body of attempt \<open>k\<close>, at the start of \<^verbatim>\<open>sendImage\<close> in attempt \<open>k\<close>, and
  before the delay that follows attempt \<open>k\<close>.
\<close>

datatype checkpoint = AtEntry | AtLoop nat | AtSend nat | AtDelay nat

text \<open>
  Everything outside the client is an oracle. The signal is optional
  (\<^verbatim>\<open>signal?: AbortSignal\<close>); when present it says what each read of
  \<^verbatim>\<open>aborted\<close> observes. \<open>getInfo k\<close> is the outcome of
  \<^verbatim>\<open>FileSystem.getInfoAsync(uri)\<close> in attempt \<open>k\<close> (a rejection, or the
  \<^verbatim>\<open>exists\<close> flag); \<open>post k\<close> is the outcome of \<^verbatim>\<open>axios.post\<close> in attempt
  \<open>k\<close> (a rejection, or \<^verbatim>\<open>response.data\<close>).
\<close>

record world =
  signal :: "(checkpoint \<Rightarrow> bool) option"
  getInfo :: "nat \<Rightarrow> js_error + bool"
  post :: "nat \<Rightarrow> js_error + js"

text \<open>
  What a run does, in order: reads of the cancellation flag with the value read, the file
  check, the network request (attempt, endpoint, extra form fields), the
  \<^verbatim>\<open>console.warn\<close> of the catch block, and the delay in milliseconds.
\<close>

datatype event =
    ReadAborted checkpoint bool
  | GetInfoAsync nat
  | AxiosPost nat string "(string \<times> string) list"
  | AttemptFailed nat js_error
  | SleepMs nat

type_synonym 'a traced = "'a \<times> event list"

definition aborted :: "world \<Rightarrow> checkpoint \<Rightarrow> bool" where
  "aborted w p = (case signal w of None \<Rightarrow> False | Some f \<Rightarrow> f p)"

definition after :: "event list \<Rightarrow> 'a traced \<Rightarrow> 'a traced" where
  "after tr rt = (fst rt, tr @ snd rt)"

text \<open>\<^verbatim>\<open>sendImage(uri, endpoint, extraData, signal)\<close>, called in attempt \<open>k\<close>.\<close>

definition sendImage :: "world \<Rightarrow> nat \<Rightarrow> string \<Rightarrow> (string \<times> string) list \<Rightarrow> (js_error + js) traced" where
  "sendImage w k endpoint extraData =
     (if aborted w (AtSend k) then
        (Inl (Error ''Request aborted''), [ReadAborted (AtSend k) True])
      else
        (case getInfo w k of
           Inl e \<Rightarrow> (Inl e, [ReadAborted (AtSend k) False, GetInfoAsync k])
         | Inr exists \<Rightarrow>
             if \<not> exists then
               (Inl (Error ''File does not exist at URI''),
                [ReadAborted (AtSend k) False, GetInfoAsync k])
             else
               (case post w k of
                  Inr data \<Rightarrow> Inr data
                | Inl error \<Rightarrow>
                    if err_name error = ''AbortError'' \<or> err_message error = ''Request aborted''
                    then Inl (Error ''Request aborted'')
                    else Inl error,
                [ReadAborted (AtSend k) False, GetInfoAsync k, AxiosPost k endpoint extraData])))"

text \<open>
  How the body of a \<^verbatim>\<open>try\<close> block ends: with a \<^verbatim>\<open>return\<close>, by running to
  its end without one (the loop then goes on to the next attempt), or with a throw.
\<close>

datatype outcome = Returned js | Completed | Thrown js_error

datatype operation = Caption | Detect | VQA string | Color | Transcribe

definition caption_try :: "world \<Rightarrow> nat \<Rightarrow> outcome traced" where
  "caption_try w attempt =
     (case sendImage w attempt BLIP_API_URL [] of
        (Inl e, tr) \<Rightarrow> (Thrown e, tr)
      | (Inr data, tr) \<Rightarrow>
          (if truthy (opt_get data ''caption'') then Returned (opt_get data ''caption'')
           else Completed, tr))"

definition detect_try :: "world \<Rightarrow> nat \<Rightarrow> outcome traced" where
  "detect_try w attempt =
     (case sendImage w attempt DETR_API_URL [] of
        (Inl e, tr) \<Rightarrow> (Thrown e, tr)
      | (Inr data, tr) \<Rightarrow>
          (if truthy (opt_get data ''labels'') then
             (case opt_get data ''labels'' of
                JArr xs \<Rightarrow> Returned (JStr (array_join xs '', ''))
              | _ \<Rightarrow> Thrown (TypeError ''data.labels.join is not a function''))
           else Returned (JStr ''No objects detected.''), tr))"

definition vqa_try :: "string \<Rightarrow> world \<Rightarrow> nat \<Rightarrow> outcome traced" where
  "vqa_try question w attempt =
     (case sendImage w attempt BLIP_VQA_API_URL [(''question'', question)] of
        (Inl e, tr) \<Rightarrow> (Thrown e, tr)
      | (Inr data, tr) \<Rightarrow>
          (if truthy (opt_get data ''answer'') then Returned (opt_get data ''answer'')
           else Completed, tr))"

definition color_try :: "world \<Rightarrow> nat \<Rightarrow> outcome traced" where
  "color_try w attempt =
     (case sendImage w attempt BLIP_VQA_API_URL [(''question'', ''What is the main color?'')] of
        (Inl e, tr) \<Rightarrow> (Thrown e, tr)
      | (Inr data, tr) \<Rightarrow>
          (if truthy (opt_get data ''answer'') then Returned (opt_get data ''answer'')
           else Returned (JStr ''Unknown''), tr))"

text \<open>The transcription request is posted inline: no file check and no third read of the flag.\<close>

definition transcribe_try :: "world \<Rightarrow> nat \<Rightarrow> outcome traced" where
  "transcribe_try w attempt =
     (case post w attempt of
        Inl e \<Rightarrow> Thrown e
      | Inr data \<Rightarrow>
          if truthy (opt_get data ''text'') then Returned (opt_get data ''text'')
          else Returned (JStr ''''),
      [AxiosPost attempt WHISPER_API_URL []])"

fun try_body :: "operation \<Rightarrow> world \<Rightarrow> nat \<Rightarrow> outcome traced" where
  "try_body Caption w attempt = caption_try w attempt"
| "try_body Detect w attempt = detect_try w attempt"
| "try_body (VQA question) w attempt = vqa_try question w attempt"
| "try_body Color w attempt = color_try w attempt"
| "try_body Transcribe w attempt = transcribe_try w attempt"

text \<open>
  What a positive read of the flag leads to: the four image operations
  \<^verbatim>\<open>throw new Error('Request aborted')\<close>, transcription \<^verbatim>\<open>return ""\<close>.
\<close>

fun on_abort :: "operation \<Rightarrow> js_error + js" where
  "on_abort Transcribe = Inr (JStr '''')"
| "on_abort Caption = Inl (Error ''Request aborted'')"
| "on_abort Detect = Inl (Error ''Request aborted'')"
| "on_abort (VQA question) = Inl (Error ''Request aborted'')"
| "on_abort Color = Inl (Error ''Request aborted'')"

text \<open>
  The first test of the catch block: the image operations rethrow an error whose message is
  \<^verbatim>\<open>'Request aborted'\<close>; transcription returns the empty string for an error named
  \<^verbatim>\<open>'AbortError'\<close> or with that message. \<open>None\<close>: the error is an ordinary failure.
\<close>

fun catch_abort :: "operation \<Rightarrow> js_error \<Rightarrow> (js_error + js) option" where
  "catch_abort Transcribe error =
     (if err_name error = ''AbortError'' \<or> err_message error = ''Request aborted''
      then Some (Inr (JStr '''')) else None)"
| "catch_abort Caption error =
     (if err_message error = ''Request aborted'' then Some (Inl error) else None)"
| "catch_abort Detect error =
     (if err_message error = ''Request aborted'' then Some (Inl error) else None)"
| "catch_abort (VQA question) error =
     (if err_message error = ''Request aborted'' then Some (Inl error) else None)"
| "catch_abort Color error =
     (if err_message error = ''Request aborted'' then Some (Inl error) else None)"

text \<open>
  The loop \<^verbatim>\<open>for (let attempt = 1; attempt <= MAX_RETRIES; attempt++)\<close> shared, copy
  for copy, by the five exported functions, from the iteration \<open>attempt\<close> on, followed by
  the \<^verbatim>\<open>return FALLBACK_MESSAGE\<close> after the loop.
\<close>

function retry_loop :: "operation \<Rightarrow> world \<Rightarrow> nat \<Rightarrow> (js_error + js) traced" where
  "retry_loop opn w attempt =
     (if \<not> attempt \<le> MAX_RETRIES then (Inr (JStr FALLBACK_MESSAGE), [])
      else if aborted w (AtLoop attempt) then
        (on_abort opn, [ReadAborted (AtLoop attempt) True])
      else
        (case try_body opn w attempt of
           (Returned v, tr) \<Rightarrow> (Inr v, ReadAborted (AtLoop attempt) False # tr)
         | (Completed, tr) \<Rightarrow>
             after (ReadAborted (AtLoop attempt) False # tr) (retry_loop opn w (attempt + 1))
         | (Thrown error, tr) \<Rightarrow>
             (case catch_abort opn error of
                Some r \<Rightarrow> (r, ReadAborted (AtLoop attempt) False # tr)
              | None \<Rightarrow>
                  if attempt < MAX_RETRIES then
                    if aborted w (AtDelay attempt) then
                      (on_abort opn,
                       ReadAborted (AtLoop attempt) False # tr @
                         [AttemptFailed attempt error, ReadAborted (AtDelay attempt) True])
                    else
                      after
                        (ReadAborted (AtLoop attempt) False # tr @
                           [AttemptFailed attempt error, ReadAborted (AtDelay attempt) False,
                            SleepMs RETRY_DELAY])
                        (retry_loop opn w (attempt + 1))
                  else
                    (Inr (JStr FALLBACK_MESSAGE),
                     ReadAborted (AtLoop attempt) False # tr @ [AttemptFailed attempt error]))))"
  by pat_completeness auto
termination
  by (relation "measure (\<lambda>(opn, w, attempt). MAX_RETRIES + 1 - attempt)") auto

declare retry_loop.simps [simp del]

text \<open>An exported function: the read of the flag on entry, then the loop from attempt 1.\<close>

definition execute :: "operation \<Rightarrow> world \<Rightarrow> (js_error + js) traced" where
  "execute opn w =
     (if aborted w AtEntry then (on_abort opn, [ReadAborted AtEntry True])
      else after [ReadAborted AtEntry False] (retry_loop opn w 1))"

definition sendImageForCaptioning :: "world \<Rightarrow> (js_error + js) traced" where
  "sendImageForCaptioning w = execute Caption w"

definition sendImageForObjectDetection :: "world \<Rightarrow> (js_error + js) traced" where
  "sendImageForObjectDetection w = execute Detect w"

definition sendImageForVQA :: "string \<Rightarrow> world \<Rightarrow> (js_error + js) traced" where
  "sendImageForVQA question w = execute (VQA question) w"

definition sendImageForColorVQA :: "world \<Rightarrow> (js_error + js) traced" where
  "sendImageForColorVQA w = execute Color w"

definition sendAudioForTranscription :: "world \<Rightarrow> (js_error + js) traced" where
  "sendAudioForTranscription w = execute Transcribe w"

text \<open>
  Vocabulary for statements about runs. \<open>adjacent tr\<close> holds the pairs of events that
  follow one another directly in \<open>tr\<close>; \<open>is_request\<close> recognises a network request.
\<close>

definition adjacent :: "'a list \<Rightarrow> ('a \<times> 'a) set" where
  "adjacent xs = set (zip xs (tl xs))"

fun is_request :: "event \<Rightarrow> bool" where
  "is_request (AxiosPost k endpoint extraData) = True"
| "is_request (ReadAborted p b) = False"
| "is_request (GetInfoAsync k) = False"
| "is_request (AttemptFailed k e) = False"
| "is_request (SleepMs d) = False"


text \<open>The attempts a run begins, by the number read at the top of the loop body.\<close>

fun loop_reads :: "event list \<Rightarrow> nat list" where
  "loop_reads [] = []"
| "loop_reads (ReadAborted (AtLoop k) b # es) = k # loop_reads es"
| "loop_reads (e # es) = loop_reads es"



text \<open>The field of the response that each operation reads.\<close>

fun expected_field :: "operation \<Rightarrow> string" where
  "expected_field Caption = ''caption''"
| "expected_field Detect = ''labels''"
| "expected_field (VQA question) = ''answer''"
| "expected_field Color = ''answer''"
| "expected_field Transcribe = ''text''"

text \<open>
  Attempt \<open>k\<close> of an image operation gets a response (the flag is clear, the file exists,
  the request resolves) whose expected field is missing or falsy.
\<close>

definition fieldless_success :: "operation \<Rightarrow> world \<Rightarrow> nat \<Rightarrow> bool" where
  "fieldless_success opn w k =
     (\<not> aborted w (AtLoop k) \<and> \<not> aborted w (AtSend k) \<and> getInfo w k = Inr True \<and>
      (case post w k of
         Inr data \<Rightarrow> \<not> truthy (opt_get data (expected_field opn))
       | Inl e \<Rightarrow> False))"

text \<open>The events of one attempt of an image operation that reaches the network.\<close>

definition request_events :: "nat \<Rightarrow> string \<Rightarrow> (string \<times> string) list \<Rightarrow> event list" where
  "request_events k endpoint extraData =
     [ReadAborted (AtLoop k) False, ReadAborted (AtSend k) False, GetInfoAsync k,
      AxiosPost k endpoint extraData]"

text \<open>
  The run of an image operation that makes all six requests one after the other, with
  nothing in between but the reads of the flag and the file check.
\<close>

definition six_requests_trace :: "string \<Rightarrow> (string \<times> string) list \<Rightarrow> event list" where
  "six_requests_trace endpoint extraData =
     ReadAborted AtEntry False #
       concat (map (\<lambda>k. request_events k endpoint extraData) [1..<Suc MAX_RETRIES])"









text \<open>Worlds used to run the client on concrete inputs.\<close>

definition no_labels_world :: world where
  "no_labels_world =
     \<lparr>signal = None, getInfo = (\<lambda>k. Inr True), post = (\<lambda>k. Inr (JObj [(''labels'', JArr [])]))\<rparr>"


definition cancelled_world :: world where
  "cancelled_world =
     \<lparr>signal = Some (\<lambda>p. True), getInfo = (\<lambda>k. Inr True),
      post = (\<lambda>k. Inr (JObj [(''text'', JStr ''what is this'')]))\<rparr>"

definition empty_object_world :: world where
  "empty_object_world =
     \<lparr>signal = None, getInfo = (\<lambda>k. Inr True), post = (\<lambda>k. Inr (JObj []))\<rparr>"




section \<open>The audio playback queue (playNextInQueue, queueAudio)\<close>

text \<open>
  The queue is written four times, word for word: in the app's navigation component, in the
  camera context, in the Detect screen and in the Describe screen, each with two refs of its
  own. A job is an opaque \<^verbatim>\<open>() => Promise<void>\<close>; \<open>'j\<close> names
  jobs. \<open>audioQueue\<close> and \<open>isPlayingAudio\<close> are the two refs of the code. \<open>running\<close>
  and \<open>history\<close> are not in the code: they record which jobs have been called and have
  not settled yet, and what has happened so far.
\<close>

datatype 'j playback = Started 'j | Finished 'j | Failed 'j

record 'j audio_queue =
  audioQueue :: "'j list"
  isPlayingAudio :: bool
  running :: "'j list"
  history :: "'j playback list"

definition idle :: "'j audio_queue" where
  "idle = \<lparr>audioQueue = [], isPlayingAudio = False, running = [], history = []\<rparr>"

text \<open>
  \<^verbatim>\<open>playNextInQueue\<close> up to its \<^verbatim>\<open>await nextAudio()\<close>: the guard, the flag, the
  \<^verbatim>\<open>shift()\<close>, and the call of the job. (Were \<^verbatim>\<open>shift()\<close> to yield nothing,
  the function would clear the flag again and call itself on the empty queue, which changes
  nothing.)
\<close>

definition playNextInQueue :: "'j audio_queue \<Rightarrow> 'j audio_queue" where
  "playNextInQueue q =
     (if isPlayingAudio q \<or> length (audioQueue q) = 0 then q
      else
        (case audioQueue q of
           [] \<Rightarrow> q
         | nextAudio # rest \<Rightarrow>
             q\<lparr>isPlayingAudio := True, audioQueue := rest,
               running := running q @ [nextAudio],
               history := history q @ [Started nextAudio]\<rparr>))"

text \<open>
  The rest of \<^verbatim>\<open>playNextInQueue\<close>, run when the promise of job \<open>j\<close> settles: a
  rejection is caught and logged, the flag is cleared, and \<^verbatim>\<open>playNextInQueue\<close> is
  called again.
\<close>

definition resume :: "'j \<Rightarrow> bool \<Rightarrow> 'j audio_queue \<Rightarrow> 'j audio_queue" where
  "resume j resolved q =
     playNextInQueue
       (q\<lparr>isPlayingAudio := False, running := remove1 j (running q),
          history := history q @ [if resolved then Finished j else Failed j]\<rparr>)"

definition queueAudio :: "'j \<Rightarrow> 'j audio_queue \<Rightarrow> 'j audio_queue" where
  "queueAudio audioFn q = playNextInQueue (q\<lparr>audioQueue := audioQueue q @ [audioFn]\<rparr>)"

text \<open>
  What can happen to the queue: a caller enqueues a job, or the promise of a job that is
  running settles (resolved or rejected). A job that is not running cannot settle.
\<close>

datatype 'j happening = Enqueue 'j | Settle 'j bool

fun happen :: "'j audio_queue \<Rightarrow> 'j happening \<Rightarrow> 'j audio_queue" where
  "happen q (Enqueue j) = queueAudio j q"
| "happen q (Settle j resolved) = (if j \<in> set (running q) then resume j resolved q else q)"

definition after_all :: "'j happening list \<Rightarrow> 'j audio_queue" where
  "after_all hs = foldl happen idle hs"

fun enqueued :: "'j happening list \<Rightarrow> 'j list" where
  "enqueued [] = []"
| "enqueued (Enqueue j # hs) = j # enqueued hs"
| "enqueued (Settle j resolved # hs) = enqueued hs"

fun started :: "'j playback list \<Rightarrow> 'j list" where
  "started [] = []"
| "started (Started j # ps) = j # started ps"
| "started (Finished j # ps) = started ps"
| "started (Failed j # ps) = started ps"

text \<open>The invariant of the queue.\<close>

definition queue_inv :: "'j audio_queue \<Rightarrow> bool" where
  "queue_inv q =
     (length (running q) \<le> 1 \<and>
      (isPlayingAudio q \<longleftrightarrow> running q \<noteq> []) \<and>
      (running q = [] \<longrightarrow> audioQueue q = []) \<and>
      (\<forall>j. running q = [j] \<longrightarrow> history q \<noteq> [] \<and> last (history q) = Started j) \<and>
      (running q = [] \<longrightarrow> history q = [] \<or> (\<exists>j. last (history q) = Finished j \<or> last (history q) = Failed j)) \<and>
      (\<forall>x y. (x, y) \<in> adjacent (history q) \<longrightarrow>
         (\<forall>j. x = Started j \<longrightarrow> y = Finished j \<or> y = Failed j) \<and>
         (\<forall>j. x = Finished j \<or> x = Failed j \<longrightarrow> (\<exists>j'. y = Started j'))))"

definition busy_day :: "nat happening list" where
  "busy_day = [Enqueue 1, Enqueue 2, Settle 1 False, Enqueue 3, Settle 2 True]"


section \<open>The speech synthesizer (cancelSpeakText, speakText)\<close>

text \<open>
  \<^verbatim>\<open>estimatedDuration\<close> and \<^verbatim>\<open>timeoutDuration\<close> of \<^verbatim>\<open>speakText\<close>, in
  milliseconds. JavaScript numbers are taken as exact reals; \<^verbatim>\<open>text.length\<close> is the
  length of the string.
\<close>

definition estimatedDuration :: "string \<Rightarrow> real" where
  "estimatedDuration text = max (real (length text) * 0.1 + 5) 30 * 1000"

definition timeoutDuration :: "string \<Rightarrow> real" where
  "timeoutDuration text = min (estimatedDuration text) 120000"

text \<open>
  A loaded \<^verbatim>\<open>Audio.Sound\<close>: its handle, the text it speaks, and whether it is playing.
  The module keeps one variable, \<^verbatim>\<open>currentSound\<close>; \<open>loaded\<close> is the audio device's
  view, the sounds that are loaded at this moment; \<open>speechFile\<close> says whether the scratch file
  \<^verbatim>\<open>speech.mp3\<close> exists.
\<close>

record clip =
  handle :: nat
  spoken :: string
  isPlaying :: bool

record speech =
  currentSound :: "nat option"
  loaded :: "clip list"
  nextHandle :: nat
  speechFile :: bool

definition silence :: speech where
  "silence = \<lparr>currentSound = None, loaded = [], nextHandle = 0, speechFile = False\<rparr>"

text \<open>
  The answer of the synthesis backend to \<^verbatim>\<open>fetch\<close> (a rejection, or a status and a
  body), and whether the scratch file exists after it has been written.
\<close>

datatype fetch_result = FetchRejected js_error | FetchResponse nat "nat list"

record tts =
  fetched :: fetch_result
  written :: bool

definition unload :: "nat \<Rightarrow> speech \<Rightarrow> speech" where
  "unload s st = st\<lparr>loaded := filter (\<lambda>c. handle c \<noteq> s) (loaded st)\<rparr>"

text \<open>
  \<^verbatim>\<open>cancelSpeakText\<close>: stop and unload \<^verbatim>\<open>currentSound\<close> if there is one, and
  clear the variable; a failure of the cleanup is ignored.
\<close>

definition cancelSpeakText :: "speech \<Rightarrow> speech" where
  "cancelSpeakText st =
     (case currentSound st of
        None \<Rightarrow> st
      | Some s \<Rightarrow> (unload s st)\<lparr>currentSound := None\<rparr>)"

fun is_prefix :: "string \<Rightarrow> string \<Rightarrow> bool" where
  "is_prefix [] ys = True"
| "is_prefix (x # xs) [] = False"
| "is_prefix (x # xs) (y # ys) = (x = y \<and> is_prefix xs ys)"

fun str_includes :: "string \<Rightarrow> string \<Rightarrow> bool" where
  "str_includes [] needle = (needle = [])"
| "str_includes (c # cs) needle = (is_prefix needle (c # cs) \<or> str_includes cs needle)"

text \<open>The catch block of \<^verbatim>\<open>speakText\<close>: cancel on a timeout, then rethrow.\<close>

definition speak_catch :: "js_error \<Rightarrow> speech \<Rightarrow> (js_error + nat) \<times> speech" where
  "speak_catch error st =
     (Inl error, if str_includes (err_message error) ''timeout'' then cancelSpeakText st else st)"

text \<open>
  \<^verbatim>\<open>speakText(text)\<close> up to \<^verbatim>\<open>await playPromise\<close>. The result is the error
  thrown on the way, or the handle of the sound that has been created and is now playing,
  for which the promise is pending. Creating the sound and starting it are taken to succeed.
\<close>

definition speakText :: "string \<Rightarrow> tts \<Rightarrow> speech \<Rightarrow> (js_error + nat) \<times> speech" where
  "speakText text env st0 =
     (let st = cancelSpeakText st0 in
      case fetched env of
        FetchRejected error \<Rightarrow> speak_catch error st
      | FetchResponse status body \<Rightarrow>
          if \<not> (200 \<le> status \<and> status \<le> 299) then
            speak_catch (Error (''HTTP error! status: '' @ show_nat status)) st
          else if length body = 0 then
            speak_catch (Error ''Received empty audio data'') st
          else if \<not> written env then
            speak_catch (Error ''Failed to write audio file'') (st\<lparr>speechFile := False\<rparr>)
          else
            (Inr (nextHandle st),
             st\<lparr>speechFile := True,
                loaded := loaded st @ [\<lparr>handle = nextHandle st, spoken = text, isPlaying = True\<rparr>],
                nextHandle := nextHandle st + 1\<rparr>))"

text \<open>
  The two ways the pending promise settles. When playback finishes by itself the status
  callback unloads the sound and deletes the scratch file. When the timer fires first it does
  the same and rejects with a timeout error, which the catch block handles; \<open>seconds\<close> is
  the timeout as the message prints it.
\<close>

definition playbackFinished :: "nat \<Rightarrow> speech \<Rightarrow> speech" where
  "playbackFinished s st = (unload s st)\<lparr>speechFile := False\<rparr>"

definition playbackTimeout :: "string \<Rightarrow> nat \<Rightarrow> speech \<Rightarrow> (js_error + nat) \<times> speech" where
  "playbackTimeout seconds s st =
     speak_catch (Error (''Speech playback timeout after '' @ seconds @ '' seconds''))
       ((unload s st)\<lparr>speechFile := False\<rparr>)"

definition tts_ok :: tts where
  "tts_ok = \<lparr>fetched = FetchResponse 200 [73, 68, 51], written = True\<rparr>"

text \<open>The sounds that are audible.\<close>

definition audible :: "speech \<Rightarrow> string list" where
  "audible st = map spoken (filter isPlaying (loaded st))"


section \<open>The capture pipeline of the Detect screen (takePhoto)\<close>

text \<open>The places where \<^verbatim>\<open>takePhoto\<close> suspends, in the order of the source.\<close>

datatype await_point =
    TakePicture
  | SpeakProcessing
  | Pause300
  | CreateSound
  | SetLooping
  | PlaySound
  | Resize
  | Detection
  | StopSound
  | Pause500
  | SpeakResult
  | DeleteResized
  | StopSoundInCatch
  | SpeakTryAgain

text \<open>
  What \<^verbatim>\<open>takePhoto\<close> does that can be observed: the state setters it calls (the UI
  updates), the calls of \<^verbatim>\<open>speakText\<close> (the speech output), the processing cue, the
  request, the file deletion, and the timer of the finally block. \<open>Resumed p s\<close> marks the
  moment the function resumes after the await at \<open>p\<close>, with \<open>s\<close> the value that
  \<^verbatim>\<open>sessionIdRef.current\<close> has by then.
\<close>

datatype effect =
    SetIsCapturing bool
  | SetCapturedPhoto string
  | SetIsDetecting bool
  | SetDetectionResults js
  | SpeakText string
  | LoadingSoundCreated
  | LoadingSoundPlaying
  | CallStopLoadingSound
  | ResizeImage string
  | DetectionRequest string
  | DeleteFile string
  | ScheduleCaptureReset
  | Resumed await_point nat

fun is_ui_update :: "effect \<Rightarrow> bool" where
  "is_ui_update (SetIsCapturing b) = True"
| "is_ui_update (SetCapturedPhoto uri) = True"
| "is_ui_update (SetIsDetecting b) = True"
| "is_ui_update (SetDetectionResults v) = True"
| "is_ui_update e = False"

fun is_speech :: "effect \<Rightarrow> bool" where
  "is_speech (SpeakText s) = True"
| "is_speech e = False"

fun is_resumed :: "effect \<Rightarrow> bool" where
  "is_resumed (Resumed p s) = True"
| "is_resumed e = False"

text \<open>
  The screen when \<^verbatim>\<open>takePhoto\<close> is called: the session counter, whether the camera
  ref is set, the two flags of the guard, and the time of the last capture.
\<close>

record detect_screen =
  sessionId :: nat
  cameraReady :: bool
  isDetecting :: bool
  isCapturing :: bool
  lastCaptureTime :: int

text \<open>
  Everything else is an oracle: the clock, \<^verbatim>\<open>isFocused\<close> as the closure captured it,
  the outcome of \<^verbatim>\<open>takePictureAsync\<close> (a rejection, or a photo with or without a
  uri), of the resize, of the other awaited calls (\<open>rejects p\<close> is the error the await at \<open>p\<close>
  rejects with, if any), the backend the detection request talks to, and the value of
  \<^verbatim>\<open>sessionIdRef.current\<close> when the function resumes after each await: a focus change
  while the function is suspended increments it.
\<close>

record camera_env =
  now :: int
  focused :: bool
  picture :: "js_error + string option"
  resized :: "js_error + string"
  backend :: world
  rejects :: "await_point \<Rightarrow> js_error option"
  sessionAt :: "await_point \<Rightarrow> nat"

definition CAPTURE_COOLDOWN :: int where
  "CAPTURE_COOLDOWN = 2000"

text \<open>The value of the session counter now, and the effects so far.\<close>

type_synonym progress = "nat \<times> effect list"

datatype exit = Normal | EarlyReturn | Threw js_error

definition emit :: "effect list \<Rightarrow> progress \<Rightarrow> progress" where
  "emit es pr = (fst pr, snd pr @ es)"

definition await :: "camera_env \<Rightarrow> await_point \<Rightarrow> progress \<Rightarrow> progress" where
  "await env p pr = (sessionAt env p, snd pr @ [Resumed p (sessionAt env p)])"

text \<open>An await that may reject: the rest \<open>k\<close> runs only if it resolves.\<close>

definition awaiting ::
  "camera_env \<Rightarrow> await_point \<Rightarrow> progress \<Rightarrow> (progress \<Rightarrow> exit \<times> progress) \<Rightarrow> exit \<times> progress" where
  "awaiting env p pr k =
     (case rejects env p of
        Some e \<Rightarrow> (Threw e, await env p pr)
      | None \<Rightarrow> k (await env p pr))"

text \<open>
  The try block after the detection result has arrived: the session check, the UI update,
  the pause, the speech, the cleanup.
\<close>

definition report :: "camera_env \<Rightarrow> nat \<Rightarrow> string \<Rightarrow> js \<Rightarrow> progress \<Rightarrow> exit \<times> progress" where
  "report env currentSession resizedUri result pr =
     (if fst pr \<noteq> currentSession then (EarlyReturn, pr)
      else
        (let pr = await env StopSound (emit [CallStopLoadingSound] pr);
             output = (if truthy result then result else JStr ''No objects found'');
             pr = await env Pause500 (emit [SetDetectionResults output] pr);
             cleanup = (\<lambda>pr. awaiting env DeleteResized (emit [DeleteFile resizedUri] pr)
                          (\<lambda>pr. (Normal, pr)))
         in
           (case output of
              JStr s \<Rightarrow>
                if focused env then awaiting env SpeakResult (emit [SpeakText s] pr) cleanup
                else cleanup pr
            | _ \<Rightarrow> cleanup pr)))"

text \<open>
  The try block. A photo without a uri, or with an empty one, is a failed capture
  (\<^verbatim>\<open>!takenPhoto?.uri\<close>).
\<close>

definition try_block :: "camera_env \<Rightarrow> nat \<Rightarrow> progress \<Rightarrow> exit \<times> progress" where
  "try_block env currentSession pr0 =
     (let pr = await env TakePicture (emit [SetIsCapturing True] pr0) in
      case picture env of
        Inl e \<Rightarrow> (Threw e, pr)
      | Inr None \<Rightarrow> (Threw (Error ''Photo capture failed''), pr)
      | Inr (Some uri) \<Rightarrow>
          if uri = [] then (Threw (Error ''Photo capture failed''), pr)
          else if fst pr \<noteq> currentSession then (EarlyReturn, pr)
          else
            awaiting env SpeakProcessing
              (emit [SetCapturedPhoto uri, SetIsDetecting True,
                     SetDetectionResults (JStr ''Processing...''), SpeakText ''Processing...''] pr)
              (\<lambda>pr.
            awaiting env CreateSound (await env Pause300 pr)
              (\<lambda>pr.
            awaiting env SetLooping (emit [LoadingSoundCreated] pr)
              (\<lambda>pr.
            awaiting env PlaySound (emit [LoadingSoundPlaying] pr)
              (\<lambda>pr.
            (let pr = await env Resize (emit [ResizeImage uri] pr) in
             case resized env of
               Inl e \<Rightarrow> (Threw e, pr)
             | Inr resizedUri \<Rightarrow>
                 (let pr = await env Detection (emit [DetectionRequest resizedUri] pr) in
                  case fst (sendImageForObjectDetection (backend env)) of
                    Inl e \<Rightarrow> (Threw e, pr)
                  | Inr result \<Rightarrow> report env currentSession resizedUri result pr)))))))"

text \<open>The catch block, entered with the error thrown in the try block.\<close>

definition catch_block :: "camera_env \<Rightarrow> nat \<Rightarrow> js_error \<Rightarrow> progress \<Rightarrow> exit \<times> progress" where
  "catch_block env currentSession error pr =
     (if fst pr \<noteq> currentSession then (EarlyReturn, pr)
      else
        awaiting env SpeakTryAgain
          (emit [SetDetectionResults (JStr ''Please Try Again''), SpeakText ''Please Try Again'']
             (await env StopSoundInCatch (emit [CallStopLoadingSound] pr)))
          (\<lambda>pr. (Normal, pr)))"

text \<open>
  The finally block: it runs on every way out of the try and catch blocks; its own
  \<^verbatim>\<open>return\<close> replaces whatever was on its way out.
\<close>

definition finally_block :: "nat \<Rightarrow> exit \<times> progress \<Rightarrow> exit \<times> progress" where
  "finally_block currentSession ep =
     (if fst (snd ep) \<noteq> currentSession then (EarlyReturn, snd ep)
      else (fst ep, emit [SetIsDetecting False, ScheduleCaptureReset] (snd ep)))"

text \<open>
  \<^verbatim>\<open>takePhoto\<close>: the cooldown, the guard, then try, catch and finally. The result is
  the error the returned promise rejects with, if any, and the effects in order.
\<close>

definition takePhoto :: "camera_env \<Rightarrow> detect_screen \<Rightarrow> js_error option \<times> effect list" where
  "takePhoto env scr =
     (if now env - lastCaptureTime scr < CAPTURE_COOLDOWN then (None, [])
      else if \<not> cameraReady scr \<or> isDetecting scr \<or> isCapturing scr then (None, [])
      else
        (let currentSession = sessionId scr;
             tried = try_block env currentSession (currentSession, []);
             handled = (case tried of
                          (Threw error, pr) \<Rightarrow> catch_block env currentSession error pr
                        | other \<Rightarrow> other);
             finished = finally_block currentSession handled
         in (case fst finished of Threw e \<Rightarrow> Some e | _ \<Rightarrow> None,
             snd (snd finished))))"

text \<open>
  The rule the session guard is there for, as a check of a run: once the function has
  resumed with the session counter different from \<open>currentSession\<close>, what it does up to its
  next suspension is neither a UI update nor speech.
\<close>

fun stale_is_silent :: "nat \<Rightarrow> effect list \<Rightarrow> bool" where
  "stale_is_silent currentSession [] = True"
| "stale_is_silent currentSession (Resumed p s # es) =
     ((s \<noteq> currentSession \<longrightarrow>
         list_all (\<lambda>e. \<not> is_ui_update e \<and> \<not> is_speech e) (takeWhile (\<lambda>e. \<not> is_resumed e) es))
      \<and> stale_is_silent currentSession es)"
| "stale_is_silent currentSession (e # es) = stale_is_silent currentSession es"

definition two_labels_world :: world where
  "two_labels_world =
     \<lparr>signal = None, getInfo = (\<lambda>k. Inr True),
      post = (\<lambda>k. Inr (JObj [(''labels'', JArr [JStr ''cat'', JStr ''dog''])]))\<rparr>"

definition ready_screen :: detect_screen where
  "ready_screen =
     \<lparr>sessionId = 1, cameraReady = True, isDetecting = False, isCapturing = False,
      lastCaptureTime = 0\<rparr>"

text \<open>The user stays on the screen, and the backend finds no objects.\<close>

definition nothing_in_view :: camera_env where
  "nothing_in_view =
     \<lparr>now = 10000, focused = True, picture = Inr (Some ''photo.jpg''),
      resized = Inr ''resized.jpg'', backend = no_labels_world, rejects = (\<lambda>p. None),
      sessionAt = (\<lambda>p. 1)\<rparr>"

text \<open>The user leaves the screen during the 500 ms pause that precedes the speech.\<close>

definition leaves_during_pause :: camera_env where
  "leaves_during_pause =
     \<lparr>now = 10000, focused = True, picture = Inr (Some ''photo.jpg''),
      resized = Inr ''resized.jpg'', backend = two_labels_world, rejects = (\<lambda>p. None),
      sessionAt = (\<lambda>p. if p = Pause500 \<or> p = SpeakResult \<or> p = DeleteResized then 2 else 1)\<rparr>"


section \<open>Properties of the request client\<close>

subsection \<open>Shapes of one attempt and of the loop\<close>

lemma adjacent_Nil [simp]: "adjacent [] = {}"
  by (simp add: adjacent_def)

lemma adjacent_Cons [simp]:
  "adjacent (x # xs) = (case xs of [] \<Rightarrow> {} | y # ys \<Rightarrow> {(x, y)}) \<union> adjacent xs"
  by (cases xs) (auto simp: adjacent_def)





lemma retry_loop_past: "\<not> a \<le> MAX_RETRIES \<Longrightarrow> retry_loop opn w a = (Inr (JStr FALLBACK_MESSAGE), [])"
  by (simp add: retry_loop.simps)













lemma upt_1_7: "[1..<Suc MAX_RETRIES] = [1, 2, 3, 4, 5, 6]" "[1..<MAX_RETRIES] = [1, 2, 3, 4, 5]"
  by (simp_all add: MAX_RETRIES_def upt_rec)
















lemma loop_reads_append [simp]: "loop_reads (xs @ ys) = loop_reads xs @ loop_reads ys"
  by (induction xs rule: loop_reads.induct) auto




lemma six_steps:
  assumes "\<And>a. a \<in> {1, 2, 3, 4, 5, 6} \<Longrightarrow>
    retry_loop opn w a = after (ev a) (retry_loop opn w (Suc a))"
  shows "retry_loop opn w 1 =
    (Inr (JStr FALLBACK_MESSAGE), concat (map ev [1..<Suc MAX_RETRIES]))"
proof -
  have "retry_loop opn w 7 = (Inr (JStr FALLBACK_MESSAGE), [])"
    by (simp add: retry_loop_past MAX_RETRIES_def)
  then have "retry_loop opn w 6 = (Inr (JStr FALLBACK_MESSAGE), ev 6)"
    using assms [of 6] by (simp add: after_def)
  then have "retry_loop opn w 5 = (Inr (JStr FALLBACK_MESSAGE), ev 5 @ ev 6)"
    using assms [of 5] by (simp add: after_def)
  then have "retry_loop opn w 4 = (Inr (JStr FALLBACK_MESSAGE), ev 4 @ ev 5 @ ev 6)"
    using assms [of 4] by (simp add: after_def)
  then have "retry_loop opn w 3 = (Inr (JStr FALLBACK_MESSAGE), ev 3 @ ev 4 @ ev 5 @ ev 6)"
    using assms [of 3] by (simp add: after_def)
  then have "retry_loop opn w 2 = (Inr (JStr FALLBACK_MESSAGE), ev 2 @ ev 3 @ ev 4 @ ev 5 @ ev 6)"
    using assms [of 2] by (simp add: after_def)
  then have "retry_loop opn w 1 =
      (Inr (JStr FALLBACK_MESSAGE), ev 1 @ ev 2 @ ev 3 @ ev 4 @ ev 5 @ ev 6)"
    using assms [of 1] by (simp add: after_def flip: numeral_2_eq_2)
  then show ?thesis unfolding upt_1_7 by simp
qed

lemma caption_fieldless_step:
  "a \<le> MAX_RETRIES \<Longrightarrow> fieldless_success Caption w a \<Longrightarrow>
     retry_loop Caption w a = after (request_events a BLIP_API_URL []) (retry_loop Caption w (Suc a))"
  by (subst retry_loop.simps)
     (auto simp: fieldless_success_def caption_try_def sendImage_def request_events_def after_def
        split: sum.splits)

lemma vqa_fieldless_step:
  "a \<le> MAX_RETRIES \<Longrightarrow> fieldless_success (VQA q) w a \<Longrightarrow>
     retry_loop (VQA q) w a =
       after (request_events a BLIP_VQA_API_URL [(''question'', q)]) (retry_loop (VQA q) w (Suc a))"
  by (subst retry_loop.simps)
     (auto simp: fieldless_success_def vqa_try_def sendImage_def request_events_def after_def
        split: sum.splits)

lemma color_fieldless_step:
  "a \<le> MAX_RETRIES \<Longrightarrow> fieldless_success Color w a \<Longrightarrow>
     retry_loop Color w a =
       (Inr (JStr ''Unknown''),
        request_events a BLIP_VQA_API_URL [(''question'', ''What is the main color?'')])"
  by (subst retry_loop.simps)
     (auto simp: fieldless_success_def color_try_def sendImage_def request_events_def after_def
        split: sum.splits)

lemma six_requests:
  "length (filter is_request (six_requests_trace ep xd)) = 6"
  "SleepMs d \<notin> set (six_requests_trace ep xd)"
  "AttemptFailed k e \<notin> set (six_requests_trace ep xd)"
  unfolding six_requests_trace_def upt_1_7 by (simp_all add: request_events_def)
































subsection \<open>Claims about the request client\<close>

text \<open>
  C1. The claim: for the detect operation, a successful response with an empty labels array
  makes \<^verbatim>\<open>sendImageForObjectDetection\<close> return the literal "No objects detected.".
  On the code the empty array is truthy, so the function takes the \<^verbatim>\<open>join\<close> branch
  and returns the empty string after one request; the literal is returned only when the
  field is missing or falsy.
\<close>

theorem detect_empty_labels_returns_empty_string:
  "sendImageForObjectDetection no_labels_world =
     (Inr (JStr ''''),
      [ReadAborted AtEntry False, ReadAborted (AtLoop 1) False, ReadAborted (AtSend 1) False,
       GetInfoAsync 1, AxiosPost 1 DETR_API_URL []])
   \<and> fst (sendImageForObjectDetection no_labels_world) \<noteq> Inr (JStr ''No objects detected.'')"
  by code_simp




text \<open>
  C3, as stated, fails for transcription: called with a token that is already cancelled it
  does not fail with the abort error, it returns the empty string.
\<close>

theorem transcription_cancelled_counterexample:
  "aborted cancelled_world AtEntry
   \<and> sendAudioForTranscription cancelled_world = (Inr (JStr ''''), [ReadAborted AtEntry True])
   \<and> fst (sendAudioForTranscription cancelled_world) \<noteq> Inl (Error ''Request aborted'')"
  by code_simp

text \<open>
  C3, amended. Called with a cancellation token that is already cancelled, every operation
  stops at the first read of the flag, before any file or network I/O: the caption, detect,
  VQA and color operations fail with the abort error, and transcription returns the empty
  string.
\<close>

theorem already_cancelled:
  "aborted w AtEntry \<Longrightarrow>
     sendImageForCaptioning w = (Inl (Error ''Request aborted''), [ReadAborted AtEntry True]) \<and>
     sendImageForObjectDetection w = (Inl (Error ''Request aborted''), [ReadAborted AtEntry True]) \<and>
     sendImageForVQA question w = (Inl (Error ''Request aborted''), [ReadAborted AtEntry True]) \<and>
     sendImageForColorVQA w = (Inl (Error ''Request aborted''), [ReadAborted AtEntry True]) \<and>
     sendAudioForTranscription w = (Inr (JStr ''''), [ReadAborted AtEntry True]) \<and>
     filter is_request (snd (execute opn w)) = []"
  by (simp add: sendImageForCaptioning_def sendImageForObjectDetection_def
      sendImageForVQA_def sendImageForColorVQA_def sendAudioForTranscription_def execute_def)

theorem already_cancelled_witness:
  "aborted cancelled_world AtEntry
   \<and> sendImageForCaptioning cancelled_world =
       (Inl (Error ''Request aborted''), [ReadAborted AtEntry True])
   \<and> sendImageForObjectDetection cancelled_world =
       (Inl (Error ''Request aborted''), [ReadAborted AtEntry True])
   \<and> sendImageForVQA ''what is this'' cancelled_world =
       (Inl (Error ''Request aborted''), [ReadAborted AtEntry True])
   \<and> sendImageForColorVQA cancelled_world =
       (Inl (Error ''Request aborted''), [ReadAborted AtEntry True])
   \<and> sendAudioForTranscription cancelled_world = (Inr (JStr ''''), [ReadAborted AtEntry True])
   \<and> filter is_request (snd (execute Caption cancelled_world)) = []"
proof -
  have h: "aborted cancelled_world AtEntry" by code_simp
  show ?thesis using h already_cancelled [OF h, of "''what is this''" Caption] by simp
qed




text \<open>
  C10, as stated, fails for the color operation: a response without an answer makes it
  return "Unknown" at once, after a single request, not the fallback string after six.
\<close>

theorem color_fieldless_counterexample:
  "\<not> aborted empty_object_world AtEntry
   \<and> list_all (fieldless_success Color empty_object_world) [1..<Suc MAX_RETRIES]
   \<and> sendImageForColorVQA empty_object_world =
       (Inr (JStr ''Unknown''),
        ReadAborted AtEntry False #
          request_events 1 BLIP_VQA_API_URL [(''question'', ''What is the main color?'')])
   \<and> fst (sendImageForColorVQA empty_object_world) \<noteq> Inr (JStr FALLBACK_MESSAGE)
   \<and> length (filter is_request (snd (sendImageForColorVQA empty_object_world))) = 1"
  by code_simp

text \<open>
  C10, amended. In the caption and VQA operations, a response that arrives without an
  exception but lacks the expected field uses up one of the six attempts with no delay
  before the next one; after six such responses the function returns the fallback string,
  having made six requests with no delay and no failure logged. The color operation
  instead returns "Unknown" on the first such response.
\<close>

theorem fieldless_responses:
  "(\<not> aborted w AtEntry \<and> list_all (fieldless_success Caption w) [1..<Suc MAX_RETRIES] \<longrightarrow>
      sendImageForCaptioning w =
        (Inr (JStr FALLBACK_MESSAGE),
         six_requests_trace BLIP_API_URL []) \<and>
      length (filter is_request (snd (sendImageForCaptioning w))) = 6 \<and>
      (\<forall>d. SleepMs d \<notin> set (snd (sendImageForCaptioning w))) \<and>
      (\<forall>k e. AttemptFailed k e \<notin> set (snd (sendImageForCaptioning w)))) \<and>
   (\<not> aborted w AtEntry \<and>
    list_all (fieldless_success (VQA question) w) [1..<Suc MAX_RETRIES] \<longrightarrow>
      sendImageForVQA question w =
        (Inr (JStr FALLBACK_MESSAGE),
         six_requests_trace BLIP_VQA_API_URL [(''question'', question)]) \<and>
      length (filter is_request (snd (sendImageForVQA question w))) = 6 \<and>
      (\<forall>d. SleepMs d \<notin> set (snd (sendImageForVQA question w))) \<and>
      (\<forall>k e. AttemptFailed k e \<notin> set (snd (sendImageForVQA question w)))) \<and>
   (\<not> aborted w AtEntry \<and> fieldless_success Color w 1 \<longrightarrow>
      sendImageForColorVQA w =
        (Inr (JStr ''Unknown''),
         ReadAborted AtEntry False #
           request_events 1 BLIP_VQA_API_URL [(''question'', ''What is the main color?'')]))"
proof (intro conjI impI)
  assume h: "\<not> aborted w AtEntry \<and> list_all (fieldless_success Caption w) [1..<Suc MAX_RETRIES]"
  then have fs: "fieldless_success Caption w a" if "a \<in> {1, 2, 3, 4, 5, 6}" for a
    using that unfolding upt_1_7 by auto
  have "retry_loop Caption w 1 =
      (Inr (JStr FALLBACK_MESSAGE),
       concat (map (\<lambda>k. request_events k BLIP_API_URL []) [1..<Suc MAX_RETRIES]))"
  proof (rule six_steps)
    fix a :: nat
    assume a: "a \<in> {1, 2, 3, 4, 5, 6}"
    then have "a \<le> MAX_RETRIES" by (auto simp: MAX_RETRIES_def)
    then show "retry_loop Caption w a =
        after (request_events a BLIP_API_URL []) (retry_loop Caption w (Suc a))"
      using fs [OF a] by (rule caption_fieldless_step)
  qed
  with h show run: "sendImageForCaptioning w =
      (Inr (JStr FALLBACK_MESSAGE),
       six_requests_trace BLIP_API_URL [])"
    by (simp add: sendImageForCaptioning_def execute_def after_def six_requests_trace_def)
  show "length (filter is_request (snd (sendImageForCaptioning w))) = 6"
    by (simp add: run six_requests)
  show "\<forall>d. SleepMs d \<notin> set (snd (sendImageForCaptioning w))"
    by (simp add: run six_requests)
  show "\<forall>k e. AttemptFailed k e \<notin> set (snd (sendImageForCaptioning w))"
    by (simp add: run six_requests)
next
  assume h: "\<not> aborted w AtEntry \<and>
    list_all (fieldless_success (VQA question) w) [1..<Suc MAX_RETRIES]"
  then have fs: "fieldless_success (VQA question) w a" if "a \<in> {1, 2, 3, 4, 5, 6}" for a
    using that unfolding upt_1_7 by auto
  have "retry_loop (VQA question) w 1 =
      (Inr (JStr FALLBACK_MESSAGE),
       concat (map (\<lambda>k. request_events k BLIP_VQA_API_URL [(''question'', question)])
         [1..<Suc MAX_RETRIES]))"
  proof (rule six_steps)
    fix a :: nat
    assume a: "a \<in> {1, 2, 3, 4, 5, 6}"
    then have "a \<le> MAX_RETRIES" by (auto simp: MAX_RETRIES_def)
    then show "retry_loop (VQA question) w a =
        after (request_events a BLIP_VQA_API_URL [(''question'', question)])
          (retry_loop (VQA question) w (Suc a))"
      using fs [OF a] by (rule vqa_fieldless_step)
  qed
  with h show run: "sendImageForVQA question w =
      (Inr (JStr FALLBACK_MESSAGE),
       six_requests_trace BLIP_VQA_API_URL [(''question'', question)])"
    by (simp add: sendImageForVQA_def execute_def after_def six_requests_trace_def)
  show "length (filter is_request (snd (sendImageForVQA question w))) = 6"
    by (simp add: run six_requests)
  show "\<forall>d. SleepMs d \<notin> set (snd (sendImageForVQA question w))"
    by (simp add: run six_requests)
  show "\<forall>k e. AttemptFailed k e \<notin> set (snd (sendImageForVQA question w))"
    by (simp add: run six_requests)
next
  assume "\<not> aborted w AtEntry \<and> fieldless_success Color w 1"
  then show "sendImageForColorVQA w =
      (Inr (JStr ''Unknown''),
       ReadAborted AtEntry False #
         request_events 1 BLIP_VQA_API_URL [(''question'', ''What is the main color?'')])"
    using color_fieldless_step [of 1 w]
    by (simp add: sendImageForColorVQA_def execute_def after_def MAX_RETRIES_def)
qed

theorem fieldless_responses_witness:
  "\<not> aborted empty_object_world AtEntry
   \<and> list_all (fieldless_success Caption empty_object_world) [1..<Suc MAX_RETRIES]
   \<and> list_all (fieldless_success (VQA ''what is this'') empty_object_world) [1..<Suc MAX_RETRIES]
   \<and> fieldless_success Color empty_object_world 1
   \<and> sendImageForCaptioning empty_object_world =
       (Inr (JStr FALLBACK_MESSAGE), six_requests_trace BLIP_API_URL [])
   \<and> sendImageForVQA ''what is this'' empty_object_world =
       (Inr (JStr FALLBACK_MESSAGE),
        six_requests_trace BLIP_VQA_API_URL [(''question'', ''what is this'')])
   \<and> length (filter is_request (snd (sendImageForCaptioning empty_object_world))) = 6
   \<and> sendImageForColorVQA empty_object_world =
       (Inr (JStr ''Unknown''),
        ReadAborted AtEntry False #
          request_events 1 BLIP_VQA_API_URL [(''question'', ''What is the main color?'')])"
proof -
  have h: "\<not> aborted empty_object_world AtEntry"
    "list_all (fieldless_success Caption empty_object_world) [1..<Suc MAX_RETRIES]"
    "list_all (fieldless_success (VQA ''what is this'') empty_object_world) [1..<Suc MAX_RETRIES]"
    "fieldless_success Color empty_object_world 1"
    by code_simp+
  show ?thesis
    using h fieldless_responses [of empty_object_world "''what is this''"] by blast
qed


section \<open>Properties of the audio playback queue\<close>

lemma adjacent_snoc:
  "adjacent (xs @ [y]) = adjacent xs \<union> (if xs = [] then {} else {(last xs, y)})"
  by (induction xs) (auto split: list.splits)

lemma adjacent_snoc2:
  "adjacent (xs @ [y, z]) = adjacent xs \<union> (if xs = [] then {} else {(last xs, y)}) \<union> {(y, z)}"
  using adjacent_snoc [of "xs @ [y]" z] adjacent_snoc [of xs y] by auto

lemma started_append [simp]: "started (ps @ qs) = started ps @ started qs"
  by (induction ps rule: started.induct) auto

lemma enqueued_append [simp]: "enqueued (hs @ ks) = enqueued hs @ enqueued ks"
  by (induction hs rule: enqueued.induct) auto

lemma inv_idle: "queue_inv idle"
  by (simp add: queue_inv_def idle_def)

lemma inv_queueAudio: "queue_inv q \<Longrightarrow> queue_inv (queueAudio j q)"
  unfolding queue_inv_def
  by (cases "running q")
     (auto simp: queueAudio_def playNextInQueue_def adjacent_snoc split: list.splits)

lemma inv_resume: "queue_inv q \<Longrightarrow> j \<in> set (running q) \<Longrightarrow> queue_inv (resume j resolved q)"
  unfolding queue_inv_def
  by (cases "running q")
     (auto simp: resume_def playNextInQueue_def adjacent_snoc adjacent_snoc2 split: list.splits)

lemma inv_happen: "queue_inv q \<Longrightarrow> queue_inv (happen q h)"
  by (cases h) (simp_all add: inv_queueAudio inv_resume)

lemma inv_after_all: "queue_inv (after_all hs)"
  by (induction hs rule: rev_induct) (simp_all add: after_all_def inv_idle inv_happen)

lemma fifo_happen:
  "started (history (happen q h)) @ audioQueue (happen q h) =
     started (history q) @ audioQueue q @ enqueued [h]"
  by (cases h)
     (auto simp: queueAudio_def resume_def playNextInQueue_def split: list.splits)

lemma fifo_after_all:
  "started (history (after_all hs)) @ audioQueue (after_all hs) = enqueued hs"
proof (induction hs rule: rev_induct)
  case Nil
  then show ?case by (simp add: after_all_def idle_def)
next
  case (snoc h hs)
  have "after_all (hs @ [h]) = happen (after_all hs) h" by (simp add: after_all_def)
  then show ?case using fifo_happen [of "after_all hs" h] snoc by simp
qed

lemma three_jobs:
  "history (after_all
     [Enqueue j1, Enqueue j2, Enqueue j3, Settle j1 r1, Settle j2 r2, Settle j3 r3]) =
     [Started j1, if r1 then Finished j1 else Failed j1,
      Started j2, if r2 then Finished j2 else Failed j2,
      Started j3, if r3 then Finished j3 else Failed j3]"
  by (simp add: after_all_def idle_def queueAudio_def resume_def playNextInQueue_def)

text \<open>
  C7. Whatever jobs are enqueued and however the running jobs settle, starting from the idle
  queue: at most one job is running at any time, and the playing flag says whether one is;
  the jobs are started in arrival order, none lost or repeated; in the history every start is
  directly followed by the end of that same job (finished or failed) and every end by the
  start of another job; when no job is running none is waiting, so a failed job does not
  hold the queue up. In particular three jobs enqueued into the idle queue run one after the
  other in arrival order, whether each one finishes or fails.
\<close>

theorem queue_runs_one_job_at_a_time:
  "length (running (after_all hs)) \<le> 1 \<and>
   (isPlayingAudio (after_all hs) \<longleftrightarrow> running (after_all hs) \<noteq> []) \<and>
   started (history (after_all hs)) @ audioQueue (after_all hs) = enqueued hs \<and>
   (running (after_all hs) = [] \<longrightarrow> audioQueue (after_all hs) = []) \<and>
   (\<forall>j. running (after_all hs) = [j] \<longrightarrow> last (history (after_all hs)) = Started j) \<and>
   (\<forall>x y. (x, y) \<in> adjacent (history (after_all hs)) \<longrightarrow>
      (\<forall>j. x = Started j \<longrightarrow> y = Finished j \<or> y = Failed j) \<and>
      (\<forall>j. x = Finished j \<or> x = Failed j \<longrightarrow> (\<exists>j'. y = Started j'))) \<and>
   history (after_all
     [Enqueue j1, Enqueue j2, Enqueue j3, Settle j1 r1, Settle j2 r2, Settle j3 r3]) =
     [Started j1, if r1 then Finished j1 else Failed j1,
      Started j2, if r2 then Finished j2 else Failed j2,
      Started j3, if r3 then Finished j3 else Failed j3]"
  using inv_after_all [of hs] fifo_after_all [of hs] three_jobs [of j1 j2 j3 r1 r2 r3]
  unfolding queue_inv_def by blast

theorem queue_runs_one_job_at_a_time_witness:
  "(Failed (1::nat), Started 2) \<in> adjacent (history (after_all busy_day))
   \<and> (Started 2, Finished 2) \<in> adjacent (history (after_all busy_day))
   \<and> running (after_all busy_day) = [3]
   \<and> last (history (after_all busy_day)) = Started 3
   \<and> running (after_all (busy_day @ [Settle 3 True])) = []
   \<and> audioQueue (after_all (busy_day @ [Settle 3 True])) = []
   \<and> started (history (after_all busy_day)) = [1, 2, 3]"
proof -
  have run: "after_all busy_day =
      \<lparr>audioQueue = [], isPlayingAudio = True, running = [3],
       history = [Started 1, Failed 1, Started 2, Finished 2, Started 3]\<rparr>"
    by (simp add: busy_day_def after_all_def idle_def queueAudio_def resume_def
        playNextInQueue_def)
  have settled: "running (after_all (busy_day @ [Settle 3 True])) = []"
    by (simp add: busy_day_def after_all_def idle_def queueAudio_def resume_def
        playNextInQueue_def)
  have now_running: "running (after_all busy_day) = [3]"
    by (simp add: run)
  have "last (history (after_all busy_day)) = Started 3"
    using queue_runs_one_job_at_a_time [of busy_day 1 2 3 True True True] now_running
    by blast
  moreover have "audioQueue (after_all (busy_day @ [Settle 3 True])) = []"
    using queue_runs_one_job_at_a_time [of "busy_day @ [Settle 3 True]" 1 2 3 True True True]
      settled
    by blast
  moreover have "(Failed (1::nat), Started 2) \<in> adjacent (history (after_all busy_day))"
    "(Started (2::nat), Finished 2) \<in> adjacent (history (after_all busy_day))"
    "started (history (after_all busy_day)) = [1, 2, 3]"
    by (simp_all add: run)
  ultimately show ?thesis using settled now_running by blast
qed


section \<open>Properties of the speech synthesizer\<close>

lemma cancel_without_current: "currentSound st = None \<Longrightarrow> cancelSpeakText st = st"
  by (simp add: cancelSpeakText_def)

lemma speakText_never_sets_current:
  "currentSound st = None \<Longrightarrow> currentSound (snd (speakText text env st)) = None"
  by (auto simp: speakText_def speak_catch_def cancelSpeakText_def Let_def
      split: fetch_result.splits)

text \<open>
  C8. For every text, the timeout of \<^verbatim>\<open>speakText\<close>, in seconds, is
  \<open>0.1 \<times> length + 5\<close> clamped to at least 30 and at most 120; so it is never below 30 s
  and never above 120 s.
\<close>

theorem speak_timeout_clamped:
  "timeoutDuration text / 1000 = min (max (0.1 * real (length text) + 5) 30) 120
   \<and> 30 \<le> timeoutDuration text / 1000 \<and> timeoutDuration text / 1000 \<le> 120"
  by (auto simp: timeoutDuration_def estimatedDuration_def min_def max_def)

text \<open>
  C6. The claim: \<^verbatim>\<open>speakText\<close> cancels and unloads the clip that is playing before it
  starts a new one, so that after \<^verbatim>\<open>speakText("A")\<close> and \<^verbatim>\<open>speakText("B")\<close> only
  "B" is audible. On the code \<^verbatim>\<open>speakText\<close> never stores the sound it creates in
  \<^verbatim>\<open>currentSound\<close>, so \<^verbatim>\<open>cancelSpeakText\<close> finds nothing to stop: with "A" still
  playing when "B" is spoken, both clips are loaded and playing.
\<close>

theorem speak_twice_both_audible:
  "speakText ''A'' tts_ok silence =
     (Inr 0, \<lparr>currentSound = None,
              loaded = [\<lparr>handle = 0, spoken = ''A'', isPlaying = True\<rparr>],
              nextHandle = 1, speechFile = True\<rparr>)
   \<and> speakText ''B'' tts_ok (snd (speakText ''A'' tts_ok silence)) =
     (Inr 1, \<lparr>currentSound = None,
              loaded = [\<lparr>handle = 0, spoken = ''A'', isPlaying = True\<rparr>,
                        \<lparr>handle = 1, spoken = ''B'', isPlaying = True\<rparr>],
              nextHandle = 2, speechFile = True\<rparr>)
   \<and> audible (snd (speakText ''B'' tts_ok (snd (speakText ''A'' tts_ok silence)))) = [''A'', ''B'']"
  by (simp add: speakText_def tts_ok_def silence_def cancelSpeakText_def audible_def)


section \<open>Properties of the capture pipeline\<close>

text \<open>
  What the Detect screen shows and speaks when the backend answers with an empty labels
  array: the empty string that the request client returns is replaced by "No objects found".
\<close>

lemma empty_labels_shown_as_not_found:
  "SetDetectionResults (JStr ''No objects found'') \<in> set (snd (takePhoto nothing_in_view ready_screen))
   \<and> SpeakText ''No objects found'' \<in> set (snd (takePhoto nothing_in_view ready_screen))
   \<and> stale_is_silent 1 (snd (takePhoto nothing_in_view ready_screen))"
  by code_simp

text \<open>
  C5. The claim: a continuation of a pipeline that resumes after the session counter has
  moved on performs no UI update and no speech output. In \<^verbatim>\<open>takePhoto\<close> of the Detect
  screen the counter is checked after the capture and after the detection request, but not
  after the 500 ms pause that follows: when the user leaves the screen during that pause,
  the function resumes with the counter at 2 instead of 1 and still speaks the result.
\<close>

theorem takePhoto_speaks_after_session_change:
  "takePhoto leaves_during_pause ready_screen =
     (None,
      [SetIsCapturing True, Resumed TakePicture 1, SetCapturedPhoto ''photo.jpg'',
       SetIsDetecting True, SetDetectionResults (JStr ''Processing...''),
       SpeakText ''Processing...'', Resumed SpeakProcessing 1, Resumed Pause300 1,
       Resumed CreateSound 1, LoadingSoundCreated, Resumed SetLooping 1,
       LoadingSoundPlaying, Resumed PlaySound 1, ResizeImage ''photo.jpg'',
       Resumed Resize 1, DetectionRequest ''resized.jpg'', Resumed Detection 1,
       CallStopLoadingSound, Resumed StopSound 1,
       SetDetectionResults (JStr ''cat, dog''), Resumed Pause500 2,
       SpeakText ''cat, dog'', Resumed SpeakResult 2, DeleteFile ''resized.jpg'',
       Resumed DeleteResized 2])
   \<and> \<not> stale_is_silent 1 (snd (takePhoto leaves_during_pause ready_screen))"
  by code_simp

theorem takePhoto_speaks_after_session_change_witness:
  "cameraReady ready_screen \<and> sessionId ready_screen = 1
   \<and> sessionAt leaves_during_pause Pause500 = 2
   \<and> SpeakText ''cat, dog'' \<in> set (snd (takePhoto leaves_during_pause ready_screen))"
  using takePhoto_speaks_after_session_change
  by (simp add: ready_screen_def leaves_during_pause_def)

end
